theory Spec2Isabelle
  imports Complex_Main
begin

section \<open>JavaScript values\<close>

text \<open>
  The dispatcher \<^verbatim>\<open>Methods\<close> (src/lib/Methods.js) and the client class
  \<^verbatim>\<open>Onfleet\<close> (src/lib/onfleet.js) interpret caller-supplied values by their shape
  only, so the embedding works over an explicit datatype of JavaScript values.

  A JavaScript number is a double: the model keeps NaN and the two infinities apart and
  takes the finite numbers to be rationals, on which \<open><\<close>, \<open>\<le>\<close> and \<open>===\<close> agree with
  the comparison of doubles (\<open>-0\<close> and \<open>0\<close> are one value).
  An object is the list of its own properties in insertion order; a read takes the first
  entry of a name.
\<close>

datatype jsnum = NaN | NegInf | Fin rat | PosInf

datatype jsval =
    JUndefined
  | JNull
  | JBool bool
  | JNum jsnum
  | JStr string
  | JArr "jsval list"
  | JObj "(string \<times> jsval) list"

text \<open>
  The built-ins of the language that the program calls and whose results depend on the
  number format (\<^verbatim>\<open>Number\<close> on a string, a number inside a template literal) or on the
  JSON grammar (\<^verbatim>\<open>JSON.stringify\<close>) are parameters of the model.
  \<^verbatim>\<open>JSON.stringify\<close> returns \<^verbatim>\<open>undefined\<close> for some inputs: that is \<open>None\<close>.
\<close>

record host =
  StringToNumber :: "string \<Rightarrow> jsnum"
  NumberToString :: "jsnum \<Rightarrow> string"
  JSON_stringify :: "jsval \<Rightarrow> string option"

text \<open>Truthiness (\<^verbatim>\<open>ToBoolean\<close>), as tested by \<^verbatim>\<open>if (x)\<close>, \<^verbatim>\<open>&&\<close> and \<^verbatim>\<open>||\<close>.\<close>

fun truthy :: "jsval \<Rightarrow> bool" where
  "truthy JUndefined = False"
| "truthy JNull = False"
| "truthy (JBool b) = b"
| "truthy (JNum n) = (n \<noteq> NaN \<and> n \<noteq> Fin 0)"
| "truthy (JStr s) = (s \<noteq> [])"
| "truthy (JArr xs) = True"
| "truthy (JObj fs) = True"

fun join_comma :: "string list \<Rightarrow> string" where
  "join_comma [] = []"
| "join_comma [s] = s"
| "join_comma (s # t # ts) = s @ '','' @ join_comma (t # ts)"

text \<open>
  \<^verbatim>\<open>ToString\<close>, as applied by a template literal \<^verbatim>\<open>`${x}`\<close>: an array joins its
  elements with commas (\<^verbatim>\<open>null\<close> and \<^verbatim>\<open>undefined\<close> elements are empty), a plain object
  is \<^verbatim>\<open>[object Object]\<close>.
\<close>

fun to_string :: "host \<Rightarrow> jsval \<Rightarrow> string" where
  "to_string h JUndefined = ''undefined''"
| "to_string h JNull = ''null''"
| "to_string h (JBool b) = (if b then ''true'' else ''false'')"
| "to_string h (JNum n) = NumberToString h n"
| "to_string h (JStr s) = s"
| "to_string h (JArr xs) =
     join_comma (map (\<lambda>x. if x = JUndefined \<or> x = JNull then [] else to_string h x) xs)"
| "to_string h (JObj fs) = ''[object Object]''"

text \<open>
  \<^verbatim>\<open>ToNumber\<close>, as applied by \<^verbatim>\<open>Number(x)\<close> and by a relational operator whose other
  operand is a number: an array or object is first converted to its string.
\<close>

fun to_number :: "host \<Rightarrow> jsval \<Rightarrow> jsnum" where
  "to_number h JUndefined = NaN"
| "to_number h JNull = Fin 0"
| "to_number h (JBool b) = (if b then Fin 1 else Fin 0)"
| "to_number h (JNum n) = n"
| "to_number h (JStr s) = StringToNumber h s"
| "to_number h (JArr xs) = StringToNumber h (to_string h (JArr xs))"
| "to_number h (JObj fs) = StringToNumber h (to_string h (JObj fs))"

text \<open>The relational operators on numbers: every comparison with NaN is false.\<close>

fun num_lt :: "jsnum \<Rightarrow> jsnum \<Rightarrow> bool" where
  "num_lt NaN b = False"
| "num_lt a NaN = False"
| "num_lt PosInf b = False"
| "num_lt a NegInf = False"
| "num_lt NegInf b = True"
| "num_lt a PosInf = True"
| "num_lt (Fin a) (Fin b) = (a < b)"

definition num_le :: "jsnum \<Rightarrow> jsnum \<Rightarrow> bool" where
  "num_le a b = (a \<noteq> NaN \<and> b \<noteq> NaN \<and> \<not> num_lt b a)"

definition isNaN :: "jsnum \<Rightarrow> bool" where
  "isNaN n = (n = NaN)"

text \<open>\<^verbatim>\<open>typeof x === "number"\<close>.\<close>

fun is_number :: "jsval \<Rightarrow> bool" where
  "is_number (JNum n) = True"
| "is_number v = False"

section \<open>Errors\<close>

text \<open>
  Modelled from the spec: src/lib/error.js (\<^verbatim>\<open>createError\<close> and the typed error
  constructors) is not among the sources. Following the Error Record of the spec (kind
  tag, message, numeric code, cause, originating request), a thrown value is the name of
  its kind together with the arguments its constructor was called with.
  \<^verbatim>\<open>TypeError\<close> is the language's own error for reading a property of \<^verbatim>\<open>undefined\<close> or
  \<^verbatim>\<open>null\<close>.
\<close>

datatype js_error = JsError string "jsval list"

definition createError :: "string \<Rightarrow> string \<Rightarrow> js_error" where
  "createError name message = JsError name [JStr message]"

definition ValidationError :: "string \<Rightarrow> js_error" where
  "ValidationError message = JsError ''ValidationError'' [JStr message]"

definition RateLimitError :: "jsval list \<Rightarrow> js_error" where
  "RateLimitError errorInfo = JsError ''RateLimitError'' errorInfo"

definition PermissionError :: "jsval list \<Rightarrow> js_error" where
  "PermissionError errorInfo = JsError ''PermissionError'' errorInfo"

definition ServiceError :: "jsval list \<Rightarrow> js_error" where
  "ServiceError errorInfo = JsError ''ServiceError'' errorInfo"

definition HttpError :: "jsval list \<Rightarrow> js_error" where
  "HttpError errorInfo = JsError ''HttpError'' errorInfo"

definition TypeError :: js_error where
  "TypeError = JsError ''TypeError'' []"

text \<open>The kind of a thrown value.\<close>

fun error_name :: "js_error \<Rightarrow> string" where
  "error_name (JsError name args) = name"

text \<open>
  Property read \<^verbatim>\<open>x.k\<close>: it throws on \<^verbatim>\<open>undefined\<close> and \<^verbatim>\<open>null\<close>. On a primitive
  or an array it is \<^verbatim>\<open>undefined\<close> for every property name this program reads
  (\<^verbatim>\<open>message\<close>, \<^verbatim>\<open>error\<close>, \<^verbatim>\<open>cause\<close>, \<^verbatim>\<open>request\<close>, \<^verbatim>\<open>hubId\<close>, \<^verbatim>\<open>workerId\<close>,
  \<^verbatim>\<open>googleApiKey\<close>, \<^verbatim>\<open>startDate\<close>, \<^verbatim>\<open>endDate\<close>, \<^verbatim>\<open>maxConcurrent\<close>, \<^verbatim>\<open>minTime\<close>, and the
  six names of the constructor's parameter pattern): none of them is a property of a
  prototype.
\<close>

fun own_prop :: "(string \<times> jsval) list \<Rightarrow> string \<Rightarrow> jsval" where
  "own_prop [] k = JUndefined"
| "own_prop (p # ps) k = (if fst p = k then snd p else own_prop ps k)"

fun get_prop :: "jsval \<Rightarrow> string \<Rightarrow> js_error + jsval" where
  "get_prop JUndefined k = Inl TypeError"
| "get_prop JNull k = Inl TypeError"
| "get_prop (JObj fs) k = Inr (own_prop fs k)"
| "get_prop v k = Inr JUndefined"

text \<open>Element read \<^verbatim>\<open>args[i]\<close> of the rest-parameter array: \<^verbatim>\<open>undefined\<close> out of range.\<close>

definition arg_at :: "jsval list \<Rightarrow> nat \<Rightarrow> jsval" where
  "arg_at args i = (if i < length args then args ! i else JUndefined)"

text \<open>\<^verbatim>\<open>[...].includes(x)\<close> on an array of string literals: \<open>x\<close> is one of the strings.\<close>

definition includes_str :: "string list \<Rightarrow> jsval \<Rightarrow> bool" where
  "includes_str xs v = (case v of JStr s \<Rightarrow> s \<in> set xs | _ \<Rightarrow> False)"

text \<open>\<^verbatim>\<open>s.includes(t)\<close> on strings: \<open>t\<close> occurs in \<open>s\<close>.\<close>

fun str_includes :: "string \<Rightarrow> string \<Rightarrow> bool" where
  "str_includes [] t = (t = [])"
| "str_includes (c # cs) t = (take (length t) (c # cs) = t \<or> str_includes cs t)"

section \<open>The method factory (src/lib/Methods.js)\<close>

text \<open>
  src/lib/util.js is not among the sources: its functions are parameters of the model,
  taken as total and pure. \<^verbatim>\<open>isBase64Encoded\<close> is the test for an identifier-shaped
  argument.
\<close>

record util =
  isBase64Encoded :: "jsval \<Rightarrow> bool"
  replaceWithId :: "string \<Rightarrow> jsval \<Rightarrow> string"
  replaceWithEndpointAndParam :: "string \<Rightarrow> jsval \<Rightarrow> jsval \<Rightarrow> string"
  appendQueryParameters :: "string \<Rightarrow> jsval \<Rightarrow> string"
  isQueryParam :: "jsval \<Rightarrow> bool"
  encode :: "jsval \<Rightarrow> string"

text \<open>
  The call descriptor \<^verbatim>\<open>key\<close>: \<open>altPath\<close> is \<open>None\<close> when the property is absent
  (\<^verbatim>\<open>undefined\<close>); \<open>meth\<close> is the property \<^verbatim>\<open>method\<close>.
\<close>

record descriptor =
  path :: string
  altPath :: "string option"
  meth :: string
  queryParams :: bool
  deliveryManifestObject :: bool
  timeoutInMilliseconds :: jsval

text \<open>The object \<^verbatim>\<open>api.api\<close> of a client; \<open>headers\<close> is mutable and shared by its calls.\<close>

record api_config =
  baseUrl :: string
  timeout :: jsval
  headers :: "(string \<times> string) list"

text \<open>The local variables of \<^verbatim>\<open>Methods\<close>, with the client's headers it may assign to.\<close>

record rstate =
  url :: string
  body :: jsval
  hasBody :: bool
  api_headers :: "(string \<times> string) list"

definition bind_err :: "'e + 'a \<Rightarrow> ('a \<Rightarrow> 'e + 'b) \<Rightarrow> 'e + 'b" where
  "bind_err m f = (case m of Inl e \<Rightarrow> Inl e | Inr x \<Rightarrow> f x)"

text \<open>Assignment \<^verbatim>\<open>obj[k] = v\<close>: an existing property keeps its place.\<close>

fun set_prop :: "string \<Rightarrow> 'v \<Rightarrow> (string \<times> 'v) list \<Rightarrow> (string \<times> 'v) list" where
  "set_prop k v [] = [(k, v)]"
| "set_prop k v (p # ps) = (if fst p = k then (k, v) # ps else p # set_prop k v ps)"

text \<open>A string or absent value inside a template literal; truthiness of the same.\<close>

definition tmpl :: "string option \<Rightarrow> string" where
  "tmpl s = (case s of None \<Rightarrow> ''undefined'' | Some a \<Rightarrow> a)"

definition truthy_str :: "string option \<Rightarrow> bool" where
  "truthy_str s = (case s of None \<Rightarrow> False | Some a \<Rightarrow> a \<noteq> [])"

definition lookupTags :: "string list" where
  "lookupTags = [''name'', ''shortId'', ''phone'', ''workers'', ''organizations'', ''teams'']"

text \<open>Lines 17 to 19: the initial url, body and \<open>hasBody\<close>.\<close>

definition Methods_init :: "descriptor \<Rightarrow> api_config \<Rightarrow> rstate" where
  "Methods_init key api =
     \<lparr>url = baseUrl api @ path key, body = JStr [], hasBody = False,
      api_headers = headers api\<rparr>"

text \<open>Lines 21 to 24: no arguments.\<close>

definition Methods_noArguments ::
  "descriptor \<Rightarrow> api_config \<Rightarrow> jsval list \<Rightarrow> rstate \<Rightarrow> rstate" where
  "Methods_noArguments key api args st =
     (if length args = 0 \<and> meth key = ''GET'' \<and> truthy_str (altPath key)
      then st\<lparr>url := baseUrl api @ tmpl (altPath key)\<rparr>
      else st)"

text \<open>Lines 26 to 40: one or more arguments, for GET, DELETE and PUT.\<close>

definition Methods_oneOrMore ::
  "util \<Rightarrow> descriptor \<Rightarrow> api_config \<Rightarrow> jsval list \<Rightarrow> rstate \<Rightarrow> rstate" where
  "Methods_oneOrMore u key api args st =
     (if length args \<ge> 1 \<and> meth key \<in> set [''GET'', ''DELETE'', ''PUT''] then
        let st1 =
          (if includes_str lookupTags (arg_at args 1)
           then st\<lparr>url := replaceWithEndpointAndParam u (url st) (arg_at args 1) (arg_at args 0)\<rparr>
           else if isBase64Encoded u (arg_at args 0)
           then st\<lparr>url := replaceWithId u (url st) (arg_at args 0)\<rparr>
           else st\<lparr>url := baseUrl api @ tmpl (altPath key)\<rparr>)
        in if meth key = ''PUT'' then st1\<lparr>body := arg_at args 1, hasBody := True\<rparr> else st1
      else st)"

text \<open>
  Lines 41 to 48: custom fields. \<^verbatim>\<open>Array.isArray(args)\<close> holds of every rest-parameter
  array.
\<close>

definition Methods_customFields :: "descriptor \<Rightarrow> jsval list \<Rightarrow> rstate \<Rightarrow> rstate" where
  "Methods_customFields key args st =
     (if meth key \<in> set [''PUT'', ''DELETE''] \<and> str_includes (url st) ''customFields''
      then st\<lparr>body := arg_at args 0, hasBody := True\<rparr>
      else st)"

text \<open>Lines 49 to 61: POST.\<close>

definition Methods_post :: "util \<Rightarrow> descriptor \<Rightarrow> jsval list \<Rightarrow> rstate \<Rightarrow> rstate" where
  "Methods_post u key args st =
     (if meth key = ''POST'' then
        (if isBase64Encoded u (arg_at args 0) then
           let st1 = st\<lparr>url := replaceWithId u (url st) (arg_at args 0)\<rparr>
           in if truthy (arg_at args 1) then st1\<lparr>body := arg_at args 1, hasBody := True\<rparr> else st1
         else st\<lparr>body := arg_at args 0, hasBody := True\<rparr>)
      else st)"

text \<open>Lines 63 to 70: the query-parameter extension, a loop over the arguments.\<close>

fun queryParams_loop :: "util \<Rightarrow> jsval list \<Rightarrow> string \<Rightarrow> string" where
  "queryParams_loop u [] url0 = url0"
| "queryParams_loop u (element # rest) url0 =
     queryParams_loop u rest
       (if isQueryParam u element then appendQueryParameters u url0 element else url0)"

definition Methods_queryParams :: "util \<Rightarrow> descriptor \<Rightarrow> jsval list \<Rightarrow> rstate \<Rightarrow> rstate" where
  "Methods_queryParams u key args st =
     (if queryParams key then st\<lparr>url := queryParams_loop u args (url st)\<rparr> else st)"

text \<open>
  Lines 72 to 92: the delivery manifest. The callback of \<^verbatim>\<open>forEach\<close> on one argument:
  its first property read throws a \<^verbatim>\<open>TypeError\<close> when the argument is \<^verbatim>\<open>undefined\<close> or
  \<^verbatim>\<open>null\<close>, before anything is assigned.
\<close>

definition manifest_item :: "host \<Rightarrow> util \<Rightarrow> jsval \<Rightarrow> rstate \<Rightarrow> js_error + rstate" where
  "manifest_item h u item st =
     bind_err (get_prop item ''hubId'') (\<lambda>hubId.
     bind_err (get_prop item ''workerId'') (\<lambda>workerId.
     bind_err (get_prop item ''googleApiKey'') (\<lambda>googleApiKey.
     bind_err (get_prop item ''startDate'') (\<lambda>startDate.
     bind_err (get_prop item ''endDate'') (\<lambda>endDate.
       let st1 =
             (if truthy hubId \<and> truthy workerId
              then st\<lparr>body :=
                        JObj [(''path'', JStr (''providers/manifest/generate?hubId='' @
                                 to_string h hubId @ ''&workerId='' @ to_string h workerId)),
                              (''method'', JStr ''GET'')],
                      hasBody := True\<rparr>
              else st);
           st2 =
             (if truthy googleApiKey
              then st1\<lparr>api_headers :=
                     set_prop ''X-API-Key'' (''Google '' @ to_string h googleApiKey)
                       (api_headers st1)\<rparr>
              else st1);
           st3 =
             (if truthy startDate \<or> truthy endDate
              then st2\<lparr>url := appendQueryParameters u (url st2)
                     (JObj ((if truthy startDate then [(''startDate'', startDate)] else []) @
                            (if truthy endDate then [(''endDate'', endDate)] else [])))\<rparr>
              else st2)
       in Inr st3)))))"

text \<open>
  The loop \<^verbatim>\<open>args.forEach\<close>: an exception ends it, and what was assigned before stays
  assigned.
\<close>

fun manifest_loop ::
  "host \<Rightarrow> util \<Rightarrow> jsval list \<Rightarrow> rstate \<Rightarrow> js_error option \<times> rstate" where
  "manifest_loop h u [] st = (None, st)"
| "manifest_loop h u (item # rest) st =
     (case manifest_item h u item st of
        Inl e \<Rightarrow> (Some e, st)
      | Inr st' \<Rightarrow> manifest_loop h u rest st')"

definition Methods_deliveryManifest ::
  "host \<Rightarrow> util \<Rightarrow> descriptor \<Rightarrow> jsval list \<Rightarrow> rstate \<Rightarrow> js_error option \<times> rstate" where
  "Methods_deliveryManifest h u key args st =
     (if deliveryManifestObject key \<and> length args > 0 then manifest_loop h u args st
      else (None, st))"

text \<open>Lines 17 to 40: the state when the custom-field test of line 43 reads the url.\<close>

definition Methods_args ::
  "util \<Rightarrow> descriptor \<Rightarrow> api_config \<Rightarrow> jsval list \<Rightarrow> rstate" where
  "Methods_args u key api args =
     Methods_oneOrMore u key api args
       (Methods_noArguments key api args (Methods_init key api))"

text \<open>Lines 17 to 61: the rules that read the arguments by position.\<close>

definition Methods_positional ::
  "util \<Rightarrow> descriptor \<Rightarrow> api_config \<Rightarrow> jsval list \<Rightarrow> rstate" where
  "Methods_positional u key api args =
     Methods_post u key args (Methods_customFields key args (Methods_args u key api args))"

text \<open>Lines 13 to 92: everything before the request is sent.\<close>

definition Methods_prepare ::
  "host \<Rightarrow> util \<Rightarrow> descriptor \<Rightarrow> api_config \<Rightarrow> jsval list \<Rightarrow> js_error option \<times> rstate" where
  "Methods_prepare h u key api args =
     Methods_deliveryManifest h u key args
       (Methods_queryParams u key args (Methods_positional u key api args))"

section \<open>Sending the request (lines 94 to 135)\<close>

text \<open>
  The request handed to \<^verbatim>\<open>fetch\<close>: the body is \<^verbatim>\<open>JSON.stringify(body)\<close> when
  \<open>hasBody\<close> is set and absent otherwise.
\<close>

record request =
  req_url :: string
  req_method :: string
  req_headers :: "(string \<times> string) list"
  req_timeout :: jsval
  req_body :: "string option"

definition Methods_request :: "host \<Rightarrow> descriptor \<Rightarrow> rstate \<Rightarrow> request" where
  "Methods_request h key st =
     \<lparr>req_url = url st, req_method = meth key, req_headers = api_headers st,
      req_timeout = timeoutInMilliseconds key,
      req_body = (if hasBody st then JSON_stringify h (body st) else None)\<rparr>"

text \<open>
  What the awaited \<^verbatim>\<open>Onfleet.limiter.schedule(() => fetch(...))\<close> gives: a rejection (the
  network failed, or the limiter dropped the job) with the value it rejects with, or a
  response. Of a response the program reads \<^verbatim>\<open>ok\<close>, \<^verbatim>\<open>status\<close> and the result of
  \<^verbatim>\<open>json()\<close>, which rejects (\<open>Inl\<close>) when the body is not JSON. When the limiter starts
  the call is not part of this model.
\<close>

record response =
  ok :: bool
  status :: int
  json :: "js_error + jsval"

datatype fetch_outcome = Rejected js_error | Responded response

text \<open>
  Lines 112 to 132: the classification of a failure body. It always throws.
  (\<^verbatim>\<open>console.log\<close> is not modelled.) \<^verbatim>\<open>errorCode >= n\<close> converts \<open>errorCode\<close> to a number.
\<close>

definition js_ge :: "host \<Rightarrow> jsval \<Rightarrow> rat \<Rightarrow> bool" where
  "js_ge h v n = num_le (Fin n) (to_number h v)"

definition js_le :: "host \<Rightarrow> jsval \<Rightarrow> rat \<Rightarrow> bool" where
  "js_le h v n = num_le (to_number h v) (Fin n)"

definition js_gt :: "host \<Rightarrow> jsval \<Rightarrow> rat \<Rightarrow> bool" where
  "js_gt h v n = num_lt (Fin n) (to_number h v)"

definition Methods_classify :: "host \<Rightarrow> jsval \<Rightarrow> js_error + jsval" where
  "Methods_classify h error =
     bind_err (get_prop error ''message'') (\<lambda>message.
     bind_err (get_prop message ''error'') (\<lambda>errorCode.
     bind_err (get_prop message ''message'') (\<lambda>m.
     bind_err (get_prop message ''cause'') (\<lambda>c.
     bind_err (get_prop message ''request'') (\<lambda>r.
       let errorInfo = [m, errorCode, c, r] in
       if errorCode = JNum (Fin 2300) then Inl (RateLimitError errorInfo)
       else if js_ge h errorCode 1100 \<and> js_le h errorCode 1108 then Inl (PermissionError errorInfo)
       else if js_ge h errorCode 2500 then Inl (ServiceError errorInfo)
       else if errorCode = JNum (Fin 2218) then Inl (ServiceError errorInfo)
       else Inl (HttpError errorInfo))))))"

text \<open>Lines 96 to 132: the body of the \<^verbatim>\<open>try\<close> block.\<close>

definition Methods_try :: "host \<Rightarrow> descriptor \<Rightarrow> fetch_outcome \<Rightarrow> js_error + jsval" where
  "Methods_try h key outcome =
     (case outcome of
        Rejected e \<Rightarrow> Inl e
      | Responded res \<Rightarrow>
          if ok res then
            (if meth key = ''DELETE'' then Inr (JNum (Fin (of_int (status res))))
             else (case json res of
                     Inr v \<Rightarrow> Inr v
                   | Inl e \<Rightarrow> Inr (JNum (Fin (of_int (status res))))))
          else (case json res of
                  Inl e \<Rightarrow> Inl e
                | Inr error \<Rightarrow> Methods_classify h error))"

text \<open>Lines 95 to 135: the \<^verbatim>\<open>try\<close> block with its \<^verbatim>\<open>catch\<close>.\<close>

definition Methods_send :: "host \<Rightarrow> descriptor \<Rightarrow> fetch_outcome \<Rightarrow> js_error + jsval" where
  "Methods_send h key outcome =
     (case Methods_try h key outcome of
        Inl error \<Rightarrow> Inl (createError ''GenericError'' ''An error occurred'')
      | Inr v \<Rightarrow> Inr v)"

text \<open>
  The whole of \<^verbatim>\<open>Methods\<close>: what the returned promise settles to (\<open>Inl\<close> a rejection),
  and the client's \<^verbatim>\<open>api\<close> object afterwards. An exception before the \<^verbatim>\<open>try\<close> block
  rejects the promise as it is. \<open>fetch\<close> is the network: the outcome of each request.
\<close>

definition Methods ::
  "host \<Rightarrow> util \<Rightarrow> (request \<Rightarrow> fetch_outcome) \<Rightarrow> descriptor \<Rightarrow> api_config \<Rightarrow> jsval list
     \<Rightarrow> (js_error + jsval) \<times> api_config" where
  "Methods h u fetch key api args =
     (case Methods_prepare h u key api args of
        (Some e, st) \<Rightarrow> (Inl e, api\<lparr>headers := api_headers st\<rparr>)
      | (None, st) \<Rightarrow>
          (Methods_send h key (fetch (Methods_request h key st)),
           api\<lparr>headers := api_headers st\<rparr>))"

section \<open>The client (src/lib/onfleet.js)\<close>

text \<open>
  The settings of the one process-wide limiter \<^verbatim>\<open>Onfleet.limiter\<close>, as
  \<^verbatim>\<open>updateSettings\<close> stores them: the value handed over, unconverted.
\<close>

record limiter_settings =
  maxConcurrent :: jsval
  minTime :: jsval

text \<open>Lines 112 to 139.\<close>

definition initBottleneckOptions ::
  "host \<Rightarrow> jsval \<Rightarrow> limiter_settings \<Rightarrow> js_error + limiter_settings" where
  "initBottleneckOptions h bottleneckOptions limiter =
     bind_err (get_prop bottleneckOptions ''maxConcurrent'') (\<lambda>mc.
       let limiter1 =
         (if truthy mc then
            (let maxConcurrent' = to_number h mc in
             if \<not> isNaN maxConcurrent' \<and> num_lt (Fin 0) maxConcurrent'
                \<and> num_lt maxConcurrent' (Fin 20)
             then limiter\<lparr>maxConcurrent := mc\<rparr>
             else limiter)
          else limiter)
       in
     bind_err (get_prop bottleneckOptions ''minTime'') (\<lambda>mt.
       Inr (if truthy mt then
              (let minTime' = to_number h mt in
               if \<not> isNaN minTime' \<and> num_lt (Fin 50) minTime'
               then limiter1\<lparr>minTime := mt\<rparr>
               else limiter1)
            else limiter1)))"

text \<open>
  The bindings of the constructor's parameter pattern (lines 65 to 72), before the
  defaults: a property that is absent is \<^verbatim>\<open>undefined\<close> and takes its default.
\<close>

record config =
  apiKey :: jsval
  userTimeout :: jsval
  bottleneckOptions :: jsval
  baseURL :: jsval
  defaultPath :: jsval
  defaultApiVersion :: jsval

definition dflt :: "jsval \<Rightarrow> jsval \<Rightarrow> jsval" where
  "dflt d v = (if v = JUndefined then d else v)"

text \<open>
  The destructuring of the one argument of the constructor. The pattern has no default
  of its own, so on \<^verbatim>\<open>undefined\<close> (a call without argument) and on \<^verbatim>\<open>null\<close> it throws
  a \<^verbatim>\<open>TypeError\<close> before the body runs; on any other value it reads the six properties.
\<close>

definition destructure :: "jsval \<Rightarrow> js_error + config" where
  "destructure arg =
     bind_err (get_prop arg ''apiKey'') (\<lambda>apiKey0.
     bind_err (get_prop arg ''userTimeout'') (\<lambda>userTimeout0.
     bind_err (get_prop arg ''bottleneckOptions'') (\<lambda>bottleneckOptions0.
     bind_err (get_prop arg ''baseURL'') (\<lambda>baseURL0.
     bind_err (get_prop arg ''defaultPath'') (\<lambda>defaultPath0.
     bind_err (get_prop arg ''defaultApiVersion'') (\<lambda>defaultApiVersion0.
       Inr \<lparr>apiKey = apiKey0, userTimeout = userTimeout0,
            bottleneckOptions = bottleneckOptions0, baseURL = baseURL0,
            defaultPath = defaultPath0, defaultApiVersion = defaultApiVersion0\<rparr>))))))"

definition DEFAULT_URL :: string where "DEFAULT_URL = ''https://onfleet.com''"
definition DEFAULT_PATH :: string where "DEFAULT_PATH = ''/api''"
definition DEFAULT_API_VERSION :: string where "DEFAULT_API_VERSION = ''/v2''"
definition DEFAULT_TIMEOUT :: rat where "DEFAULT_TIMEOUT = 70000"

text \<open>
  The instance: \<open>endpoints\<close> are the names under which \<^verbatim>\<open>initResources\<close> installs one
  resource client each (the keys of \<^verbatim>\<open>resources\<close>, lower-cased). The resource classes
  are not among the sources; per the spec they are plain tables of descriptors, and
  constructing one is taken to succeed.
\<close>

record onfleet =
  this_apiKey :: jsval
  this_api :: api_config
  this_headers :: "(string \<times> string) list"
  endpoints :: "string list"

definition toLowerCase :: "string \<Rightarrow> string" where
  "toLowerCase s =
     map (\<lambda>c. if c \<in> set ''ABCDEFGHIJKLMNOPQRSTUVWXYZ''
               then char_of (of_char c + (32::nat)) else c) s"

definition resources :: "string list" where
  "resources = [''Admins'', ''Administrators'', ''Containers'', ''Destinations'', ''Hubs'',
     ''Organization'', ''Recipients'', ''Tasks'', ''Teams'', ''Workers'', ''Webhooks'',
     ''CustomFields'']"

definition initResources :: "string list" where
  "initResources = map toLowerCase resources"

text \<open>
  Lines 73 to 100, the body of the constructor on the bindings of its parameter.
  \<open>pkg_name\<close> and \<open>pkg_version\<close> are \<^verbatim>\<open>name\<close> and \<^verbatim>\<open>version\<close> of package.json. The
  constructor also acts on the shared limiter.
\<close>

definition Onfleet_constructor_body ::
  "host \<Rightarrow> util \<Rightarrow> string \<Rightarrow> string \<Rightarrow> config \<Rightarrow> limiter_settings
     \<Rightarrow> js_error + (onfleet \<times> limiter_settings)" where
  "Onfleet_constructor_body h u pkg_name pkg_version cfg limiter =
     (let userTimeout' = dflt (JNum (Fin DEFAULT_TIMEOUT)) (userTimeout cfg);
          bottleneckOptions' = dflt JNull (bottleneckOptions cfg);
          baseURL' = dflt (JStr DEFAULT_URL) (baseURL cfg);
          defaultPath' = dflt (JStr DEFAULT_PATH) (defaultPath cfg);
          defaultApiVersion' = dflt (JStr DEFAULT_API_VERSION) (defaultApiVersion cfg)
      in
      if \<not> truthy (apiKey cfg) then
        Inl (ValidationError
          ''Onfleet API key not found, please obtain an API key from your organization admin'')
      else if js_gt h userTimeout' DEFAULT_TIMEOUT then
        Inl (ValidationError ''User-defined timeout has to be shorter than 70000ms'')
      else
        let this =
          \<lparr>this_apiKey = apiKey cfg,
           this_api =
             \<lparr>baseUrl = to_string h baseURL' @ to_string h defaultPath'
                          @ to_string h defaultApiVersion',
              timeout = userTimeout',
              headers =
                [(''Content-Type'', ''application/json''),
                 (''User-Agent'', pkg_name @ ''-'' @ pkg_version),
                 (''Authorization'', ''Basic '' @ encode u (apiKey cfg))]\<rparr>,
           this_headers = [],
           endpoints = initResources\<rparr>
        in
        bind_err
          (if truthy bottleneckOptions' then initBottleneckOptions h bottleneckOptions' limiter
           else Inr limiter)
          (\<lambda>limiter'. Inr (this, limiter')))"

text \<open>Lines 65 to 101: \<^verbatim>\<open>new Onfleet(arg)\<close>.\<close>

definition Onfleet_constructor ::
  "host \<Rightarrow> util \<Rightarrow> string \<Rightarrow> string \<Rightarrow> jsval \<Rightarrow> limiter_settings
     \<Rightarrow> js_error + (onfleet \<times> limiter_settings)" where
  "Onfleet_constructor h u pkg_name pkg_version arg limiter =
     bind_err (destructure arg)
       (\<lambda>cfg. Onfleet_constructor_body h u pkg_name pkg_version cfg limiter)"

section \<open>Notions of the specification\<close>

text \<open>
  The specification calls the query-parameter rule and the manifest's date rule additive:
  they only append to the url. \<open>url_extended u base x\<close> says that \<open>x\<close> is \<open>base\<close> after
  any number of calls of \<^verbatim>\<open>util.appendQueryParameters\<close>.
\<close>

inductive url_extended :: "util \<Rightarrow> string \<Rightarrow> string \<Rightarrow> bool"
  for u :: util and base :: string where
  same: "url_extended u base base"
| appended: "url_extended u base x \<Longrightarrow> url_extended u base (appendQueryParameters u x obj)"

text \<open>
  The ranges of the limiter configuration in the words of the specification: a positive
  number strictly less than a ceiling, and a number strictly greater than a floor.
  \<^verbatim>\<open>Infinity\<close> is a number greater than every floor.
\<close>

definition is_positive_below :: "rat \<Rightarrow> jsnum \<Rightarrow> bool" where
  "is_positive_below limit n = (case n of Fin q \<Rightarrow> 0 < q \<and> q < limit | _ \<Rightarrow> False)"

definition is_above :: "rat \<Rightarrow> jsnum \<Rightarrow> bool" where
  "is_above limit n = (case n of Fin q \<Rightarrow> limit < q | PosInf \<Rightarrow> True | _ \<Rightarrow> False)"

section \<open>Concrete instances\<close>

text \<open>
  The theorems below hold of every \<open>host\<close> and every \<open>util\<close>. To evaluate them at
  concrete inputs, here is one instance of each. The host reads natural
  numbers in decimal, prints a number as its sign, its integer part and the digits of
  its fraction (as JavaScript does for a number with a short decimal expansion, of
  absolute value from \<^verbatim>\<open>1e-6\<close> up to \<^verbatim>\<open>1e21\<close>), and prints strings without escapes;
  no evaluation below reads or prints a number outside these. The util follows the
  descriptions of the specification: an identifier is 24 characters of letters, digits,
  \<^verbatim>\<open>*\<close> and \<^verbatim>\<open>~\<close>; an identifier replaces the \<^verbatim>\<open>:param\<close> segment of the path; a lookup
  replaces it by tag and value; query parameters are appended after \<^verbatim>\<open>?\<close>; \<open>encode\<close>
  marks its argument and does not compute the Base64 text.
\<close>

definition is_digit :: "char \<Rightarrow> bool" where
  "is_digit c = (c \<in> set ''0123456789'')"

definition is_letter :: "char \<Rightarrow> bool" where
  "is_letter c = (c \<in> set ''abcdefghijklmnopqrstuvwxyzABCDEFGHIJKLMNOPQRSTUVWXYZ'')"

fun parse_digits :: "string \<Rightarrow> nat \<Rightarrow> nat option" where
  "parse_digits [] acc = Some acc"
| "parse_digits (c # cs) acc =
     (if is_digit c then parse_digits cs (10 * acc + (of_char c - 48)) else None)"

definition digit_char :: "nat \<Rightarrow> char" where
  "digit_char d = ''0123456789'' ! d"

function show_nat :: "nat \<Rightarrow> string" where
  "show_nat n =
     (if n < 10 then [digit_char n] else show_nat (n div 10) @ [digit_char (n mod 10)])"
  by pat_completeness auto
termination
  by (relation "measure id") auto

fun frac_digits :: "nat \<Rightarrow> rat \<Rightarrow> string" where
  "frac_digits 0 r = []"
| "frac_digits (Suc k) r =
     (if r = 0 then []
      else digit_char (nat \<lfloor>r * 10\<rfloor>) # frac_digits k (r * 10 - of_int \<lfloor>r * 10\<rfloor>))"

definition show_rat :: "rat \<Rightarrow> string" where
  "show_rat q =
     (if q < 0 then ''-'' else []) @ show_nat (nat \<lfloor>\<bar>q\<bar>\<rfloor>)
     @ (if \<bar>q\<bar> = of_int \<lfloor>\<bar>q\<bar>\<rfloor> then []
        else ''.'' @ frac_digits 17 (\<bar>q\<bar> - of_int \<lfloor>\<bar>q\<bar>\<rfloor>))"

definition quote :: "string \<Rightarrow> string" where
  "quote s = [CHR 0x22] @ s @ [CHR 0x22]"

fun json_text :: "(jsnum \<Rightarrow> string) \<Rightarrow> jsval \<Rightarrow> string" where
  "json_text f JUndefined = ''null''"
| "json_text f JNull = ''null''"
| "json_text f (JBool b) = (if b then ''true'' else ''false'')"
| "json_text f (JNum n) = f n"
| "json_text f (JStr s) = quote s"
| "json_text f (JArr xs) = ''['' @ join_comma (map (json_text f) xs) @ '']''"
| "json_text f (JObj fs) =
     ''{'' @ join_comma (map (\<lambda>p. quote (fst p) @ '':'' @ json_text f (snd p))
                          (filter (\<lambda>p. snd p \<noteq> JUndefined) fs)) @ ''}''"

definition example_host :: host where
  "example_host =
     \<lparr>StringToNumber =
        (\<lambda>s. if s = [] then Fin 0
             else case parse_digits s 0 of Some n \<Rightarrow> Fin (of_nat n) | None \<Rightarrow> NaN),
      NumberToString =
        (\<lambda>n. case n of NaN \<Rightarrow> ''NaN'' | NegInf \<Rightarrow> ''-Infinity'' | PosInf \<Rightarrow> ''Infinity''
              | Fin q \<Rightarrow> show_rat q),
      JSON_stringify =
        (\<lambda>v. if v = JUndefined then None
             else Some (json_text
                    (\<lambda>n. case n of Fin q \<Rightarrow> show_rat q | _ \<Rightarrow> ''null'') v))\<rparr>"

fun subst_param :: "string \<Rightarrow> string \<Rightarrow> string" where
  "subst_param [] r = []"
| "subst_param (c # cs) r =
     (if c = CHR '':'' \<and> cs \<noteq> [] \<and> is_letter (hd cs) then r @ dropWhile is_letter cs
      else c # subst_param cs r)"

fun join_amp :: "string list \<Rightarrow> string" where
  "join_amp [] = []"
| "join_amp [s] = s"
| "join_amp (s # t # ts) = s @ ''&'' @ join_amp (t # ts)"

definition example_util :: util where
  "example_util =
     \<lparr>isBase64Encoded =
        (\<lambda>v. case v of
               JStr s \<Rightarrow>
                 length s = 24
                 \<and> list_all (\<lambda>c. is_letter c \<or> is_digit c \<or> c \<in> set ''*~'') s
             | _ \<Rightarrow> False),
      replaceWithId = (\<lambda>url0 id. subst_param url0 (to_string example_host id)),
      replaceWithEndpointAndParam =
        (\<lambda>url0 endpoint id.
           subst_param url0
             (to_string example_host endpoint @ ''/'' @ to_string example_host id)),
      appendQueryParameters =
        (\<lambda>url0 obj. case obj of
               JObj fs \<Rightarrow>
                 url0 @ ''?''
                 @ join_amp (map (\<lambda>p. fst p @ ''='' @ to_string example_host (snd p)) fs)
             | _ \<Rightarrow> url0),
      isQueryParam = (\<lambda>v. case v of JObj fs \<Rightarrow> True | _ \<Rightarrow> False),
      encode = (\<lambda>k. ''base64('' @ to_string example_host k @ '':)'')\<rparr>"

definition example_api :: api_config where
  "example_api =
     \<lparr>baseUrl = ''https://onfleet.com/api/v2'', timeout = JNum (Fin 70000),
      headers = [(''Content-Type'', ''application/json'')]\<rparr>"

definition example_get :: descriptor where
  "example_get =
     \<lparr>path = ''/tasks/:taskId'', altPath = Some ''/tasks/all'', meth = ''GET'',
      queryParams = False, deliveryManifestObject = False,
      timeoutInMilliseconds = JNum (Fin 70000)\<rparr>"

definition example_delete :: descriptor where
  "example_delete =
     \<lparr>path = ''/tasks/:taskId'', altPath = None, meth = ''DELETE'', queryParams = False,
      deliveryManifestObject = False, timeoutInMilliseconds = JNum (Fin 70000)\<rparr>"

definition example_put_customFields :: descriptor where
  "example_put_customFields =
     \<lparr>path = ''/customFields'', altPath = Some ''/customFields'', meth = ''PUT'',
      queryParams = False, deliveryManifestObject = False,
      timeoutInMilliseconds = JNum (Fin 70000)\<rparr>"

definition example_post :: descriptor where
  "example_post =
     \<lparr>path = ''/tasks/:taskId/clone'', altPath = None, meth = ''POST'',
      queryParams = False, deliveryManifestObject = False,
      timeoutInMilliseconds = JNum (Fin 70000)\<rparr>"

definition example_post_manifest :: descriptor where
  "example_post_manifest =
     \<lparr>path = ''/integrations/marketplace'', altPath = None, meth = ''POST'',
      queryParams = False, deliveryManifestObject = True,
      timeoutInMilliseconds = JNum (Fin 70000)\<rparr>"

text \<open>The manifest argument of src/test/test.js, its hub and worker.\<close>

definition example_manifest_args :: "jsval list" where
  "example_manifest_args =
     [JObj [(''hubId'', JStr ''kyfYe*wyVbqfomP2HTn5dAe1~*O''),
            (''workerId'', JStr ''kBUZAb7pREtRn*8wIUCpjnPu'')]]"

definition example_manifest_body :: jsval where
  "example_manifest_body =
     JObj [(''path'', JStr ''providers/manifest/generate?hubId=kyfYe*wyVbqfomP2HTn5dAe1~*O&workerId=kBUZAb7pREtRn*8wIUCpjnPu''),
           (''method'', JStr ''GET'')]"

text \<open>A failure body of the remote service with the rate-limit code.\<close>

definition rate_limit_body :: jsval where
  "rate_limit_body =
     JObj [(''code'', JStr ''RateLimitExceeded''),
           (''message'',
            JObj [(''error'', JNum (Fin 2300)),
                  (''message'', JStr ''Rate limit exceeded''),
                  (''cause'', JStr ''Too many requests''),
                  (''request'', JStr ''9a8b7c'')])]"

text \<open>The argument \<^verbatim>\<open>{ apiKey }\<close> of src/test/test.js.\<close>

definition example_config :: jsval where
  "example_config = JObj [(''apiKey'', JStr ''<your_api_key>'')]"

definition example_limiter :: limiter_settings where
  "example_limiter = \<lparr>maxConcurrent = JNum (Fin 1), minTime = JNum (Fin 50)\<rparr>"

section \<open>Facts about the stages\<close>

lemma num_le_Fin [simp]: "num_le (Fin a) (Fin b) = (a \<le> b)"
  by (auto simp: num_le_def)

text \<open>Without the manifest flag, and without arguments, nothing before the request fails.\<close>

lemma prepare_no_manifest:
  "\<not> deliveryManifestObject key \<Longrightarrow>
   Methods_prepare h u key api args =
     (None, Methods_queryParams u key args (Methods_positional u key api args))"
  by (simp add: Methods_prepare_def Methods_deliveryManifest_def)

lemma prepare_no_args:
  "Methods_prepare h u key api [] = (None, Methods_positional u key api [])"
  by (simp add: Methods_prepare_def Methods_deliveryManifest_def Methods_queryParams_def)

lemma Methods_fst:
  "Methods_prepare h u key api args = (None, st) \<Longrightarrow>
   fst (Methods h u fetch key api args) = Methods_send h key (fetch (Methods_request h key st))"
  by (simp add: Methods_def)

lemma example_get_prepare:
  "Methods_prepare example_host example_util example_get example_api args =
     (None, Methods_queryParams example_util example_get args
              (Methods_positional example_util example_get example_api args))"
  by (simp add: prepare_no_manifest example_get_def)

text \<open>The \<^verbatim>\<open>catch\<close> of line 133 replaces whatever the \<^verbatim>\<open>try\<close> block throws.\<close>

lemma Methods_send_error:
  "Methods_try h key outcome = Inl cause \<Longrightarrow>
   Methods_send h key outcome = Inl (createError ''GenericError'' ''An error occurred'')"
  by (simp add: Methods_send_def)

lemma Methods_send_never_typed:
  "Methods_send h key outcome \<noteq> Inl (RateLimitError info)
   \<and> Methods_send h key outcome \<noteq> Inl (PermissionError info)
   \<and> Methods_send h key outcome \<noteq> Inl (ServiceError info)
   \<and> Methods_send h key outcome \<noteq> Inl (HttpError info)"
  by (simp add: Methods_send_def createError_def RateLimitError_def PermissionError_def
        ServiceError_def HttpError_def split: sum.splits)

text \<open>
  Inside the \<^verbatim>\<open>try\<close> block the classification follows the table of the specification:
  on a body whose \<^verbatim>\<open>message.error\<close> is the number \<open>c\<close>, lines 122 to 132 throw the
  error of the kind the table gives for \<open>c\<close>.
\<close>

lemma Methods_classify_throws: "\<exists>e. Methods_classify h error = Inl e"
  by (auto simp: Methods_classify_def bind_err_def Let_def split: sum.splits)

lemma Methods_classify_numeric:
  assumes "get_prop error ''message'' = Inr message"
    and "get_prop message ''error'' = Inr (JNum (Fin c))"
  shows "\<exists>m cause request.
           Methods_classify h error =
             Inl ((if c = 2300 then RateLimitError
                   else if 1100 \<le> c \<and> c \<le> 1108 then PermissionError
                   else if 2500 \<le> c \<or> c = 2218 then ServiceError
                   else HttpError) [m, JNum (Fin c), cause, request])"
proof -
  obtain m where m: "get_prop message ''message'' = Inr m"
    using assms(2) by (cases message) auto
  obtain cause where c: "get_prop message ''cause'' = Inr cause"
    using assms(2) by (cases message) auto
  obtain request where r: "get_prop message ''request'' = Inr request"
    using assms(2) by (cases message) auto
  show ?thesis
    using assms m c r
    by (auto simp: Methods_classify_def bind_err_def Let_def js_ge_def js_le_def)
qed

section \<open>The dispatcher's results\<close>

text \<open>
  Claim C1. For a failed response whose body carries \<^verbatim>\<open>message.error = 2300\<close> the caller
  is to observe a RateLimit error (and the Permission, Service and Http errors for the
  other codes). The code does not do this. On the response with status 429 and the body
  \<open>rate_limit_body\<close>, line 123 throws the \<^verbatim>\<open>RateLimitError\<close> inside the \<^verbatim>\<open>try\<close>
  block, the \<^verbatim>\<open>catch\<close> of line 133 receives it, and the promise that \<^verbatim>\<open>Methods\<close>
  returns rejects with the generic error
  \<^verbatim>\<open>createError("GenericError", "An error occurred")\<close>, which is not the typed error.
  By \<open>Methods_send_never_typed\<close> no input makes the caller observe a typed error.
\<close>

theorem Methods_typed_error_replaced:
  "Methods_try example_host example_get
       (Responded \<lparr>ok = False, status = 429, json = Inr rate_limit_body\<rparr>)
     = Inl (RateLimitError [JStr ''Rate limit exceeded'', JNum (Fin 2300),
                            JStr ''Too many requests'', JStr ''9a8b7c''])
   \<and> fst (Methods example_host example_util
            (\<lambda>r. Responded \<lparr>ok = False, status = 429, json = Inr rate_limit_body\<rparr>)
            example_get example_api [JStr ''SxD9Ran6pOfnUDgfTecTsgXd''])
     = Inl (createError ''GenericError'' ''An error occurred'')
   \<and> createError ''GenericError'' ''An error occurred''
     \<noteq> RateLimitError [JStr ''Rate limit exceeded'', JNum (Fin 2300),
                        JStr ''Too many requests'', JStr ''9a8b7c'']"
proof -
  have t: "Methods_try example_host example_get
       (Responded \<lparr>ok = False, status = 429, json = Inr rate_limit_body\<rparr>)
     = Inl (RateLimitError [JStr ''Rate limit exceeded'', JNum (Fin 2300),
                            JStr ''Too many requests'', JStr ''9a8b7c''])"
    by (simp add: Methods_try_def Methods_classify_def bind_err_def rate_limit_body_def)
  have m: "fst (Methods example_host example_util
            (\<lambda>r. Responded \<lparr>ok = False, status = 429, json = Inr rate_limit_body\<rparr>)
            example_get example_api [JStr ''SxD9Ran6pOfnUDgfTecTsgXd''])
     = Inl (createError ''GenericError'' ''An error occurred'')"
    using t by (simp add: Methods_fst [OF example_get_prepare] Methods_send_error)
  have n: "createError ''GenericError'' ''An error occurred''
     \<noteq> RateLimitError [JStr ''Rate limit exceeded'', JNum (Fin 2300),
                        JStr ''Too many requests'', JStr ''9a8b7c'']"
    by (simp add: createError_def RateLimitError_def)
  from t m n show ?thesis by simp
qed

text \<open>
  Claim C2. When the request was prepared and then the awaited call rejects (network
  failure) with some \<open>cause\<close>, or the response has a failure status and its body is not
  JSON (\<^verbatim>\<open>res.json()\<close> rejects with \<open>cause\<close>), or the parsed body lacks the fields the
  classifier reads (reading \<^verbatim>\<open>error.message.error\<close> throws \<open>cause\<close>), then the
  \<^verbatim>\<open>try\<close> block fails with \<open>cause\<close> and the caller observes the one generic error
  \<^verbatim>\<open>createError("GenericError", "An error occurred")\<close>, in which \<open>cause\<close> does not occur.
\<close>

theorem Methods_generic_error:
  assumes "Methods_prepare h u key api args = (None, st)"
    and "fetch (Methods_request h key st) = Rejected cause
         \<or> fetch (Methods_request h key st) = Responded res \<and> \<not> ok res
             \<and> json res = Inl cause
         \<or> fetch (Methods_request h key st) = Responded res \<and> \<not> ok res
             \<and> json res = Inr error
             \<and> bind_err (get_prop error ''message'') (\<lambda>message. get_prop message ''error'')
                 = Inl cause"
  shows "Methods_try h key (fetch (Methods_request h key st)) = Inl cause
         \<and> fst (Methods h u fetch key api args) =
             Inl (createError ''GenericError'' ''An error occurred'')"
proof -
  have "Methods_try h key (fetch (Methods_request h key st)) = Inl cause"
    using assms(2)
    by (auto simp: Methods_try_def Methods_classify_def bind_err_def split: sum.splits)
  then show ?thesis
    using assms(1) by (simp add: Methods_fst Methods_send_error)
qed

theorem Methods_generic_error_witness:
  "fst (Methods example_host example_util
          (\<lambda>r. Rejected (JsError ''FetchError'' [JStr ''ECONNRESET'']))
          example_get example_api [])
     = Inl (createError ''GenericError'' ''An error occurred'')
   \<and> fst (Methods example_host example_util
          (\<lambda>r. Responded \<lparr>ok = False, status = 502,
                            json = Inl (JsError ''SyntaxError'' [JStr ''Unexpected token <''])\<rparr>)
          example_get example_api [])
     = Inl (createError ''GenericError'' ''An error occurred'')
   \<and> fst (Methods example_host example_util
          (\<lambda>r. Responded \<lparr>ok = False, status = 500,
                            json = Inr (JObj [(''code'', JStr ''Oops'')])\<rparr>)
          example_get example_api [])
     = Inl (createError ''GenericError'' ''An error occurred'')"
proof -
  let ?f1 = "\<lambda>r::request. Rejected (JsError ''FetchError'' [JStr ''ECONNRESET''])"
  let ?r2 = "\<lparr>ok = False, status = 502,
              json = Inl (JsError ''SyntaxError'' [JStr ''Unexpected token <''])\<rparr>"
  let ?r3 = "\<lparr>ok = False, status = 500, json = Inr (JObj [(''code'', JStr ''Oops'')])\<rparr>"
  note p = example_get_prepare [of "[]"]
  have 1: "fst (Methods example_host example_util ?f1 example_get example_api [])
     = Inl (createError ''GenericError'' ''An error occurred'')"
    using Methods_generic_error [OF p, of ?f1 "JsError ''FetchError'' [JStr ''ECONNRESET'']"]
    by simp
  have 2: "fst (Methods example_host example_util (\<lambda>r. Responded ?r2) example_get example_api [])
     = Inl (createError ''GenericError'' ''An error occurred'')"
    using Methods_generic_error [OF p, of "\<lambda>r. Responded ?r2"
            "JsError ''SyntaxError'' [JStr ''Unexpected token <'']" ?r2]
    by simp
  have 3: "fst (Methods example_host example_util (\<lambda>r. Responded ?r3) example_get example_api [])
     = Inl (createError ''GenericError'' ''An error occurred'')"
    using Methods_generic_error [OF p, of "\<lambda>r. Responded ?r3" TypeError ?r3
            "JObj [(''code'', JStr ''Oops'')]"]
    by (simp add: bind_err_def)
  from 1 2 3 show ?thesis by simp
qed

text \<open>
  Claim C4. When the request was prepared and the response has a success status
  (\<^verbatim>\<open>res.ok\<close>): a DELETE operation resolves to the numeric status code; every other
  operation resolves to the parsed JSON body, and to the numeric status code when the
  body does not parse (\<^verbatim>\<open>res.json()\<close> rejects, as on an empty body).
\<close>

theorem Methods_success_result:
  assumes "Methods_prepare h u key api args = (None, st)"
    and "fetch (Methods_request h key st) = Responded res"
    and "ok res"
  shows "fst (Methods h u fetch key api args) =
           (if meth key = ''DELETE'' then Inr (JNum (Fin (of_int (status res))))
            else case json res of
                   Inr parsed \<Rightarrow> Inr parsed
                 | Inl e \<Rightarrow> Inr (JNum (Fin (of_int (status res)))))"
  using assms by (simp add: Methods_fst Methods_send_def Methods_try_def split: sum.splits)

theorem Methods_success_result_witness:
  "fst (Methods example_host example_util
          (\<lambda>r. Responded \<lparr>ok = True, status = 200, json = Inl (JsError ''FetchError'' [])\<rparr>)
          example_get example_api [JStr ''SxD9Ran6pOfnUDgfTecTsgXd''])
     = Inr (JNum (Fin 200))
   \<and> fst (Methods example_host example_util
          (\<lambda>r. Responded \<lparr>ok = True, status = 200,
                            json = Inr (JObj [(''id'', JStr ''SxD9Ran6pOfnUDgfTecTsgXd'')])\<rparr>)
          example_get example_api [JStr ''SxD9Ran6pOfnUDgfTecTsgXd''])
     = Inr (JObj [(''id'', JStr ''SxD9Ran6pOfnUDgfTecTsgXd'')])
   \<and> fst (Methods example_host example_util
          (\<lambda>r. Responded \<lparr>ok = True, status = 200,
                            json = Inr (JObj [(''id'', JStr ''SxD9Ran6pOfnUDgfTecTsgXd'')])\<rparr>)
          example_delete example_api [JStr ''SxD9Ran6pOfnUDgfTecTsgXd''])
     = Inr (JNum (Fin 200))"
proof -
  let ?args = "[JStr ''SxD9Ran6pOfnUDgfTecTsgXd'']"
  let ?f1 = "\<lambda>r::request.
      Responded \<lparr>ok = True, status = 200, json = Inl (JsError ''FetchError'' [])\<rparr>"
  let ?f2 = "\<lambda>r::request.
      Responded \<lparr>ok = True, status = 200,
                 json = Inr (JObj [(''id'', JStr ''SxD9Ran6pOfnUDgfTecTsgXd'')])\<rparr>"
  note g = example_get_prepare [of ?args]
  have d: "Methods_prepare example_host example_util example_delete example_api ?args =
      (None, Methods_queryParams example_util example_delete ?args
               (Methods_positional example_util example_delete example_api ?args))"
    by (simp add: prepare_no_manifest example_delete_def)
  show ?thesis
    using Methods_success_result [OF g, of ?f1] Methods_success_result [OF g, of ?f2]
      Methods_success_result [OF d, of ?f2]
    by (simp add: example_get_def example_delete_def)
qed

section \<open>The url and body rules\<close>

text \<open>The rules after the positional ones only append to the url.\<close>

lemma queryParams_loop_extended:
  "url_extended u base x \<Longrightarrow> url_extended u base (queryParams_loop u args x)"
  by (induction args arbitrary: x) (auto intro: url_extended.intros)

lemma manifest_item_extended:
  "manifest_item h u item st = Inr st' \<Longrightarrow> url_extended u base (url st) \<Longrightarrow>
   url_extended u base (url st')"
  by (auto simp: manifest_item_def bind_err_def Let_def split: sum.splits if_splits
           intro: url_extended.intros)

lemma manifest_loop_extended:
  "url_extended u base (url st) \<Longrightarrow>
   url_extended u base (url (snd (manifest_loop h u args st)))"
proof (induction args arbitrary: st)
  case Nil
  then show ?case by simp
next
  case (Cons item rest)
  show ?case
  proof (cases "manifest_item h u item st")
    case (Inl e)
    then show ?thesis using Cons.prems by simp
  next
    case (Inr st')
    then show ?thesis
      using Cons.IH [of st'] manifest_item_extended [OF Inr Cons.prems] by simp
  qed
qed

lemma prepare_extended:
  "url_extended u (url (Methods_positional u key api args))
     (url (snd (Methods_prepare h u key api args)))"
proof -
  have "url_extended u (url (Methods_positional u key api args))
          (url (Methods_queryParams u key args (Methods_positional u key api args)))"
    by (simp add: Methods_queryParams_def queryParams_loop_extended url_extended.same)
  then show ?thesis
    by (simp add: Methods_prepare_def Methods_deliveryManifest_def manifest_loop_extended)
qed

text \<open>
  Claim C5. For a descriptor with the GET verb and a defined alternate path (present and
  not the empty string: line 22 tests its truthiness), a call with no arguments is
  prepared without error and the url of its request is the base url followed by the
  alternate path; it is not the url of the primary path unless the two paths are equal.
\<close>

theorem Methods_no_arguments_url:
  assumes "meth key = ''GET''" and "altPath key = Some alt" and "alt \<noteq> []"
  shows "\<exists>st. Methods_prepare h u key api [] = (None, st)
              \<and> req_url (Methods_request h key st) = baseUrl api @ alt
              \<and> (alt \<noteq> path key \<longrightarrow>
                   req_url (Methods_request h key st) \<noteq> baseUrl api @ path key)"
  using assms
  by (simp add: prepare_no_args Methods_positional_def Methods_args_def Methods_post_def
        Methods_customFields_def Methods_oneOrMore_def Methods_noArguments_def Methods_init_def
        Methods_request_def truthy_str_def tmpl_def)

theorem Methods_no_arguments_url_witness:
  "req_url (Methods_request example_host example_get
      (snd (Methods_prepare example_host example_util example_get example_api [])))
     = ''https://onfleet.com/api/v2/tasks/all''"
  using Methods_no_arguments_url
          [of example_get "''/tasks/all''" example_host example_util example_api]
  by (auto simp: example_get_def example_api_def)

lemma positional_lookup_url:
  assumes "meth key \<in> {''GET'', ''DELETE'', ''PUT''}" and "args \<noteq> []"
    and "arg_at args 1 = JStr tag" and "tag \<in> set lookupTags"
  shows "url (Methods_positional u key api args) =
           replaceWithEndpointAndParam u (baseUrl api @ path key) (JStr tag) (arg_at args 0)"
proof -
  have len: "Suc 0 \<le> length args"
    using assms(2) by (cases args) auto
  have tag: "includes_str lookupTags (arg_at args 1)"
    using assms(3,4) by (simp add: includes_str_def)
  have "url (Methods_args u key api args) =
          replaceWithEndpointAndParam u (baseUrl api @ path key) (JStr tag) (arg_at args 0)"
    using assms(1,2,3) len tag
    by (auto simp: Methods_args_def Methods_oneOrMore_def Methods_noArguments_def
          Methods_init_def Let_def)
  moreover have "meth key \<noteq> ''POST''"
    using assms(1) by auto
  ultimately show ?thesis
    by (simp add: Methods_positional_def Methods_post_def Methods_customFields_def)
qed

text \<open>
  Claim C6. For a GET, DELETE or PUT call with at least one argument whose second
  argument is one of the lookup tags \<^verbatim>\<open>name\<close>, \<^verbatim>\<open>shortId\<close>, \<^verbatim>\<open>phone\<close>, \<^verbatim>\<open>workers\<close>,
  \<^verbatim>\<open>organizations\<close>, \<^verbatim>\<open>teams\<close>: the positional rules leave the url
  \<^verbatim>\<open>replaceWithEndpointAndParam(baseUrl + path, tag, firstArgument)\<close>, whether or not the
  first argument is identifier-shaped (nothing is assumed of \<open>isBase64Encoded\<close>); the
  later rules only append query parameters to it; and on a descriptor without the
  query-parameter and manifest flags it is the url of the request.
\<close>

theorem Methods_lookup_tag_url:
  assumes "meth key \<in> {''GET'', ''DELETE'', ''PUT''}" and "args \<noteq> []"
    and "arg_at args 1 = JStr tag" and "tag \<in> set lookupTags"
  shows "url (Methods_positional u key api args) =
           replaceWithEndpointAndParam u (baseUrl api @ path key) (JStr tag) (arg_at args 0)
         \<and> url_extended u
             (replaceWithEndpointAndParam u (baseUrl api @ path key) (JStr tag) (arg_at args 0))
             (url (snd (Methods_prepare h u key api args)))
         \<and> (\<not> queryParams key \<and> \<not> deliveryManifestObject key \<longrightarrow>
              fst (Methods_prepare h u key api args) = None
              \<and> req_url (Methods_request h key (snd (Methods_prepare h u key api args))) =
                  replaceWithEndpointAndParam u (baseUrl api @ path key) (JStr tag)
                    (arg_at args 0))"
proof -
  note p = positional_lookup_url [OF assms, of u api]
  have "url_extended u (url (Methods_positional u key api args))
          (url (snd (Methods_prepare h u key api args)))"
    by (rule prepare_extended)
  then show ?thesis
    using p by (simp add: prepare_no_manifest Methods_queryParams_def Methods_request_def)
qed

theorem Methods_lookup_tag_url_witness:
  "isBase64Encoded example_util (JStr ''SxD9Ran6pOfnUDgfTecTsgXd'')
   \<and> req_url (Methods_request example_host example_get
        (snd (Methods_prepare example_host example_util example_get example_api
               [JStr ''SxD9Ran6pOfnUDgfTecTsgXd'', JStr ''shortId''])))
     = ''https://onfleet.com/api/v2/tasks/shortId/SxD9Ran6pOfnUDgfTecTsgXd''"
proof -
  have b: "isBase64Encoded example_util (JStr ''SxD9Ran6pOfnUDgfTecTsgXd'')"
    by (simp add: example_util_def is_letter_def is_digit_def)
  have "req_url (Methods_request example_host example_get
        (snd (Methods_prepare example_host example_util example_get example_api
               [JStr ''SxD9Ran6pOfnUDgfTecTsgXd'', JStr ''shortId''])))
     = replaceWithEndpointAndParam example_util (baseUrl example_api @ path example_get)
         (JStr ''shortId'') (JStr ''SxD9Ran6pOfnUDgfTecTsgXd'')"
    using Methods_lookup_tag_url
            [of example_get "[JStr ''SxD9Ran6pOfnUDgfTecTsgXd'', JStr ''shortId'']"
                "''shortId''" example_util example_api example_host]
    by (simp add: example_get_def arg_at_def lookupTags_def)
  also have "\<dots> = ''https://onfleet.com/api/v2/tasks/shortId/SxD9Ran6pOfnUDgfTecTsgXd''"
    by (simp add: example_util_def example_host_def example_api_def example_get_def
          is_letter_def)
  finally show ?thesis using b by simp
qed

lemma positional_customFields_body:
  assumes "meth key \<in> {''PUT'', ''DELETE''}"
    and "str_includes (url (Methods_args u key api args)) ''customFields''"
  shows "body (Methods_positional u key api args) = arg_at args 0
         \<and> hasBody (Methods_positional u key api args)"
proof -
  have "meth key \<noteq> ''POST''"
    using assms(1) by auto
  then show ?thesis
    using assms by (auto simp: Methods_positional_def Methods_post_def Methods_customFields_def)
qed

lemma args_put_body:
  "meth key = ''PUT'' \<Longrightarrow> args \<noteq> [] \<Longrightarrow>
   body (Methods_args u key api args) = arg_at args 1 \<and> hasBody (Methods_args u key api args)"
  by (cases args) (auto simp: Methods_args_def Methods_oneOrMore_def Let_def)

text \<open>
  Claim C7, as stated, fails. Take the PUT descriptor with path and alternate path
  \<^verbatim>\<open>/customFields\<close> and the delivery-manifest flag, called with one argument that carries
  \<^verbatim>\<open>hubId\<close> and \<^verbatim>\<open>workerId\<close>. The url contains \<^verbatim>\<open>customFields\<close> when line 43 tests it,
  so line 46 makes the first argument the body; then the manifest rule of lines 75 to 81
  replaces the body by the manifest request, which is the final body and is sent.
\<close>

theorem Methods_customFields_body_counterexample:
  "meth (example_put_customFields\<lparr>deliveryManifestObject := True\<rparr>) = ''PUT''
   \<and> str_includes
        (url (Methods_args example_util
                (example_put_customFields\<lparr>deliveryManifestObject := True\<rparr>)
                example_api example_manifest_args)) ''customFields''
   \<and> Methods_prepare example_host example_util
        (example_put_customFields\<lparr>deliveryManifestObject := True\<rparr>) example_api
        example_manifest_args
     = (None, \<lparr>url = ''https://onfleet.com/api/v2/customFields'',
               body = example_manifest_body, hasBody = True,
               api_headers = headers example_api\<rparr>)
   \<and> example_manifest_body \<noteq> arg_at example_manifest_args 0
   \<and> JSON_stringify example_host example_manifest_body
     \<noteq> JSON_stringify example_host (arg_at example_manifest_args 0)"
  by (simp add: Methods_prepare_def Methods_deliveryManifest_def Methods_queryParams_def
       Methods_positional_def Methods_args_def Methods_post_def Methods_customFields_def
       Methods_oneOrMore_def Methods_noArguments_def Methods_init_def manifest_item_def
       bind_err_def Let_def includes_str_def arg_at_def tmpl_def lookupTags_def
       example_put_customFields_def example_manifest_args_def example_manifest_body_def
       example_api_def example_util_def example_host_def quote_def)

text \<open>
  Claim C7, amended. For a PUT or DELETE call whose url contains \<^verbatim>\<open>customFields\<close> when
  line 43 tests it (after the rules of lines 21 to 40): the positional rules leave the
  first argument as the body; for a PUT call with an argument the rule of line 37 had
  set the body to the second argument before; and on a descriptor without the
  delivery-manifest flag the call is prepared without error, the first argument is the
  final body, and the request carries its JSON serialization.
\<close>

theorem Methods_customFields_body:
  assumes "meth key \<in> {''PUT'', ''DELETE''}"
    and "str_includes (url (Methods_args u key api args)) ''customFields''"
  shows "body (Methods_positional u key api args) = arg_at args 0
         \<and> (meth key = ''PUT'' \<and> args \<noteq> [] \<longrightarrow>
              body (Methods_args u key api args) = arg_at args 1)
         \<and> (\<not> deliveryManifestObject key \<longrightarrow>
              (\<exists>st. Methods_prepare h u key api args = (None, st)
                    \<and> body st = arg_at args 0
                    \<and> req_body (Methods_request h key st) = JSON_stringify h (arg_at args 0)))"
  using positional_customFields_body [OF assms] args_put_body [of key args u api]
  by (simp add: prepare_no_manifest Methods_queryParams_def Methods_request_def)

theorem Methods_customFields_body_witness:
  "Methods_prepare example_host example_util example_put_customFields example_api
     [JObj [(''model'', JStr ''Task'')], JObj [(''ignored'', JBool True)]]
   = (None, \<lparr>url = ''https://onfleet.com/api/v2/customFields'',
              body = JObj [(''model'', JStr ''Task'')], hasBody = True,
              api_headers = headers example_api\<rparr>)
   \<and> body (Methods_args example_util example_put_customFields example_api
        [JObj [(''model'', JStr ''Task'')], JObj [(''ignored'', JBool True)]])
     = JObj [(''ignored'', JBool True)]"
proof -
  let ?args = "[JObj [(''model'', JStr ''Task'')], JObj [(''ignored'', JBool True)]]"
  have m: "meth example_put_customFields \<in> {''PUT'', ''DELETE''}"
    by (simp add: example_put_customFields_def)
  have a: "Methods_args example_util example_put_customFields example_api ?args
     = \<lparr>url = ''https://onfleet.com/api/v2/customFields'',
        body = JObj [(''ignored'', JBool True)], hasBody = True,
        api_headers = headers example_api\<rparr>"
    by (simp add: Methods_args_def Methods_oneOrMore_def Methods_noArguments_def
          Methods_init_def Let_def includes_str_def arg_at_def tmpl_def
          example_put_customFields_def example_api_def example_util_def)
  have c: "str_includes
        (url (Methods_args example_util example_put_customFields example_api ?args))
        ''customFields''"
    by (simp add: a)
  have "\<not> deliveryManifestObject example_put_customFields"
    by (simp add: example_put_customFields_def)
  then obtain st where st:
    "Methods_prepare example_host example_util example_put_customFields example_api ?args
       = (None, st)"
    "body st = arg_at ?args 0"
    using Methods_customFields_body [OF m c, of example_host] by blast
  have "st = Methods_positional example_util example_put_customFields example_api ?args"
    using st(1)
    by (simp add: prepare_no_manifest Methods_queryParams_def example_put_customFields_def)
  moreover have "meth example_put_customFields = ''PUT''"
    by (simp add: example_put_customFields_def)
  ultimately have "st = \<lparr>url = ''https://onfleet.com/api/v2/customFields'',
              body = JObj [(''model'', JStr ''Task'')], hasBody = True,
              api_headers = headers example_api\<rparr>"
    by (simp add: Methods_positional_def Methods_post_def Methods_customFields_def a arg_at_def)
  then show ?thesis using st(1) a by simp
qed

lemma positional_post:
  assumes "meth key = ''POST''"
  shows "Methods_positional u key api args =
           (if isBase64Encoded u (arg_at args 0) then
              (if truthy (arg_at args 1)
               then \<lparr>url = replaceWithId u (baseUrl api @ path key) (arg_at args 0),
                     body = arg_at args 1, hasBody = True, api_headers = headers api\<rparr>
               else \<lparr>url = replaceWithId u (baseUrl api @ path key) (arg_at args 0),
                     body = JStr [], hasBody = False, api_headers = headers api\<rparr>)
            else \<lparr>url = baseUrl api @ path key, body = arg_at args 0, hasBody = True,
                  api_headers = headers api\<rparr>)"
  using assms
  by (simp add: Methods_positional_def Methods_args_def Methods_post_def Methods_customFields_def
        Methods_oneOrMore_def Methods_noArguments_def Methods_init_def Let_def)

text \<open>
  Claim C8, as stated, fails. Take the POST descriptor of the delivery manifest (path
  \<^verbatim>\<open>/integrations/marketplace\<close>, manifest flag set), called with the one argument that
  carries \<^verbatim>\<open>hubId\<close> and \<^verbatim>\<open>workerId\<close>. The first argument is not identifier-shaped, so
  line 58 makes it the body; then the manifest rule of lines 75 to 81 replaces the body
  by the manifest request, and that is what is serialized and sent.
\<close>

theorem Methods_post_body_counterexample:
  "meth example_post_manifest = ''POST''
   \<and> \<not> isBase64Encoded example_util (arg_at example_manifest_args 0)
   \<and> Methods_prepare example_host example_util example_post_manifest example_api
        example_manifest_args
     = (None, \<lparr>url = ''https://onfleet.com/api/v2/integrations/marketplace'',
               body = example_manifest_body, hasBody = True,
               api_headers = headers example_api\<rparr>)
   \<and> example_manifest_body \<noteq> arg_at example_manifest_args 0
   \<and> JSON_stringify example_host example_manifest_body
     \<noteq> JSON_stringify example_host (arg_at example_manifest_args 0)"
  by (simp add: Methods_prepare_def Methods_deliveryManifest_def Methods_queryParams_def
       Methods_positional_def Methods_args_def Methods_post_def Methods_customFields_def
       Methods_oneOrMore_def Methods_noArguments_def Methods_init_def manifest_item_def
       bind_err_def Let_def arg_at_def
       example_post_manifest_def example_manifest_args_def example_manifest_body_def
       example_api_def example_util_def example_host_def quote_def)

text \<open>
  Claim C8, amended. For a POST call on a descriptor without the delivery-manifest
  flag, the call is prepared without error. If the first argument is identifier-shaped,
  the positional rules leave the url \<^verbatim>\<open>replaceWithId(baseUrl + path, firstArgument)\<close>,
  and the request carries the JSON serialization of the second argument when there is
  one (line 53 tests its truthiness) and no body otherwise. If the first argument is not
  identifier-shaped, the url stays \<^verbatim>\<open>baseUrl + path\<close> and the request carries the JSON
  serialization of the first argument. The url of the request is that url, with the
  query parameters appended when the descriptor allows them.
\<close>

theorem Methods_post_body:
  assumes "meth key = ''POST''" and "\<not> deliveryManifestObject key"
  shows "\<exists>st. Methods_prepare h u key api args = (None, st)
           \<and> (isBase64Encoded u (arg_at args 0) \<longrightarrow>
                url (Methods_positional u key api args) =
                  replaceWithId u (baseUrl api @ path key) (arg_at args 0)
                \<and> req_body (Methods_request h key st) =
                  (if truthy (arg_at args 1) then JSON_stringify h (arg_at args 1) else None))
           \<and> (\<not> isBase64Encoded u (arg_at args 0) \<longrightarrow>
                url (Methods_positional u key api args) = baseUrl api @ path key
                \<and> req_body (Methods_request h key st) = JSON_stringify h (arg_at args 0))
           \<and> req_url (Methods_request h key st) =
               (if queryParams key
                then queryParams_loop u args (url (Methods_positional u key api args))
                else url (Methods_positional u key api args))"
  using assms(2)
  by (simp add: prepare_no_manifest positional_post [OF assms(1)] Methods_queryParams_def
        Methods_request_def)

theorem Methods_post_body_witness:
  "req_url (Methods_request example_host example_post
     (snd (Methods_prepare example_host example_util example_post example_api
        [JStr ''SxD9Ran6pOfnUDgfTecTsgXd'', JObj [(''includeMetadata'', JBool True)]])))
     = ''https://onfleet.com/api/v2/tasks/SxD9Ran6pOfnUDgfTecTsgXd/clone''
   \<and> req_body (Methods_request example_host example_post
     (snd (Methods_prepare example_host example_util example_post example_api
        [JStr ''SxD9Ran6pOfnUDgfTecTsgXd'', JObj [(''includeMetadata'', JBool True)]])))
     = JSON_stringify example_host (JObj [(''includeMetadata'', JBool True)])
   \<and> req_body (Methods_request example_host (example_post\<lparr>path := ''/teams''\<rparr>)
     (snd (Methods_prepare example_host example_util (example_post\<lparr>path := ''/teams''\<rparr>)
        example_api [JObj [(''name'', JStr ''Onfleet Team'')]])))
     = JSON_stringify example_host (JObj [(''name'', JStr ''Onfleet Team'')])"
proof -
  let ?a1 = "[JStr ''SxD9Ran6pOfnUDgfTecTsgXd'', JObj [(''includeMetadata'', JBool True)]]"
  let ?a2 = "[JObj [(''name'', JStr ''Onfleet Team'')]]"
  let ?k2 = "example_post\<lparr>path := ''/teams''\<rparr>"
  have k: "meth example_post = ''POST''" "\<not> deliveryManifestObject example_post"
    "\<not> queryParams example_post" "meth ?k2 = ''POST''" "\<not> deliveryManifestObject ?k2"
    by (simp_all add: example_post_def)
  have b1: "isBase64Encoded example_util (arg_at ?a1 0)"
    by (simp add: example_util_def is_letter_def is_digit_def arg_at_def)
  have b2: "\<not> isBase64Encoded example_util (arg_at ?a2 0)"
    by (simp add: example_util_def arg_at_def)
  have u: "replaceWithId example_util (baseUrl example_api @ path example_post)
             (JStr ''SxD9Ran6pOfnUDgfTecTsgXd'')
             = ''https://onfleet.com/api/v2/tasks/SxD9Ran6pOfnUDgfTecTsgXd/clone''"
    by (simp add: example_util_def example_host_def example_api_def example_post_def
          is_letter_def)
  from Methods_post_body [OF k(1,2), of example_host example_util example_api ?a1]
  obtain st1 where st1:
    "Methods_prepare example_host example_util example_post example_api ?a1 = (None, st1)"
    "req_body (Methods_request example_host example_post st1) =
       (if truthy (arg_at ?a1 1) then JSON_stringify example_host (arg_at ?a1 1) else None)"
    "req_url (Methods_request example_host example_post st1) =
       replaceWithId example_util (baseUrl example_api @ path example_post) (arg_at ?a1 0)"
    using b1 k(3) by auto
  from Methods_post_body [OF k(4,5), of example_host example_util example_api ?a2]
  obtain st2 where st2:
    "Methods_prepare example_host example_util ?k2 example_api ?a2 = (None, st2)"
    "req_body (Methods_request example_host ?k2 st2) =
       JSON_stringify example_host (arg_at ?a2 0)"
    using b2 by auto
  show ?thesis
    using st1 st2 by (simp add: u arg_at_def)
qed

section \<open>The client\<close>

text \<open>The guards of lines 119 to 123 and of line 133 are the ranges of the specification.\<close>

lemma maxConcurrent_guard:
  "(\<not> isNaN n \<and> num_lt (Fin 0) n \<and> num_lt n (Fin c)) = is_positive_below c n"
  by (cases n) (simp_all add: isNaN_def is_positive_below_def)

lemma minTime_guard:
  "(\<not> isNaN n \<and> num_lt (Fin f) n) = is_above f n"
  by (cases n) (simp_all add: isNaN_def is_above_def)

lemma truthy_positive: "is_positive_below c n \<Longrightarrow> truthy (JNum n)"
  by (cases n) (auto simp: is_positive_below_def)

lemma truthy_above: "0 \<le> f \<Longrightarrow> is_above f n \<Longrightarrow> truthy (JNum n)"
  by (cases n) (auto simp: is_above_def)

lemma initBottleneckOptions_obj:
  "initBottleneckOptions h (JObj fs) limiter =
     Inr \<lparr>maxConcurrent =
            (if truthy (own_prop fs ''maxConcurrent'')
                \<and> is_positive_below 20 (to_number h (own_prop fs ''maxConcurrent''))
             then own_prop fs ''maxConcurrent'' else maxConcurrent limiter),
          minTime =
            (if truthy (own_prop fs ''minTime'')
                \<and> is_above 50 (to_number h (own_prop fs ''minTime''))
             then own_prop fs ''minTime'' else minTime limiter)\<rparr>"
  by (simp add: initBottleneckOptions_def bind_err_def Let_def maxConcurrent_guard minTime_guard)

lemma initBottleneckOptions_truthy:
  "truthy opts \<Longrightarrow> \<exists>limiter'. initBottleneckOptions h opts limiter = Inr limiter'"
  by (cases opts) (simp_all add: initBottleneckOptions_def bind_err_def Let_def)

text \<open>
  Claim C3, as stated, fails: a setting is applied although the given value is not a
  number. With \<^verbatim>\<open>maxConcurrent: true\<close> line 117 computes \<^verbatim>\<open>Number(true) = 1\<close>, which passes
  the test of lines 119 to 123, and line 125 hands \<^verbatim>\<open>true\<close> itself to
  \<^verbatim>\<open>updateSettings\<close>; with \<^verbatim>\<open>minTime: "100"\<close> line 131 computes \<^verbatim>\<open>100\<close>, and line 135
  stores the string.
\<close>

theorem initBottleneckOptions_ranges_counterexample:
  "initBottleneckOptions example_host
      (JObj [(''maxConcurrent'', JBool True), (''minTime'', JStr ''100'')]) example_limiter
     = Inr \<lparr>maxConcurrent = JBool True, minTime = JStr ''100''\<rparr>
   \<and> \<not> is_number (JBool True) \<and> \<not> is_number (JStr ''100'')
   \<and> \<lparr>maxConcurrent = JBool True, minTime = JStr ''100''\<rparr> \<noteq> example_limiter"
  by (simp add: initBottleneckOptions_def bind_err_def Let_def isNaN_def example_host_def
        is_digit_def example_limiter_def)

text \<open>
  Claim C3, amended. On an options object, \<^verbatim>\<open>initBottleneckOptions\<close> raises no error. It
  stores the given \<^verbatim>\<open>maxConcurrent\<close>, as given, exactly when the value is truthy and
  \<^verbatim>\<open>Number\<close> of it is a positive number strictly less than 20, and the given \<^verbatim>\<open>minTime\<close>,
  as given, exactly when the value is truthy and \<^verbatim>\<open>Number\<close> of it is a number strictly
  greater than 50; otherwise the setting is left as it was. When the given value is
  itself a number, the condition is the range alone: a positive number strictly less
  than 20, a number strictly greater than 50.
\<close>

theorem initBottleneckOptions_ranges:
  "\<exists>limiter'. initBottleneckOptions h (JObj fs) limiter = Inr limiter'
     \<and> maxConcurrent limiter' =
         (if truthy (own_prop fs ''maxConcurrent'')
             \<and> is_positive_below 20 (to_number h (own_prop fs ''maxConcurrent''))
          then own_prop fs ''maxConcurrent'' else maxConcurrent limiter)
     \<and> minTime limiter' =
         (if truthy (own_prop fs ''minTime'')
             \<and> is_above 50 (to_number h (own_prop fs ''minTime''))
          then own_prop fs ''minTime'' else minTime limiter)
     \<and> (\<forall>n. own_prop fs ''maxConcurrent'' = JNum n \<longrightarrow>
           maxConcurrent limiter' =
             (if is_positive_below 20 n then JNum n else maxConcurrent limiter))
     \<and> (\<forall>n. own_prop fs ''minTime'' = JNum n \<longrightarrow>
           minTime limiter' = (if is_above 50 n then JNum n else minTime limiter))"
  using truthy_positive [of 20] truthy_above [of 50]
  by (auto simp: initBottleneckOptions_obj)

theorem initBottleneckOptions_ranges_witness:
  "initBottleneckOptions example_host
      (JObj [(''maxConcurrent'', JNum (Fin 50)), (''minTime'', JNum (Fin 1))]) example_limiter
     = Inr example_limiter
   \<and> initBottleneckOptions example_host
      (JObj [(''maxConcurrent'', JNum (Fin 5)), (''minTime'', JNum (Fin 100))]) example_limiter
     = Inr \<lparr>maxConcurrent = JNum (Fin 5), minTime = JNum (Fin 100)\<rparr>"
  using initBottleneckOptions_ranges [of example_host
          "[(''maxConcurrent'', JNum (Fin 50)), (''minTime'', JNum (Fin 1))]" example_limiter]
        initBottleneckOptions_ranges [of example_host
          "[(''maxConcurrent'', JNum (Fin 5)), (''minTime'', JNum (Fin 100))]" example_limiter]
  by (auto simp: is_positive_below_def is_above_def example_limiter_def)

lemma destructure_nullish:
  "arg = JUndefined \<or> arg = JNull \<Longrightarrow> destructure arg = Inl TypeError"
  by (auto simp: destructure_def bind_err_def)

lemma destructure_reads:
  assumes "get_prop arg ''apiKey'' = Inr key" and "get_prop arg ''userTimeout'' = Inr t"
  shows "\<exists>cfg. destructure arg = Inr cfg \<and> apiKey cfg = key \<and> userTimeout cfg = t"
  using assms by (cases arg) (auto simp: destructure_def bind_err_def)

text \<open>The body of the constructor, on the bindings of its parameter.\<close>

lemma Onfleet_constructor_body_validation:
  "(\<not> truthy (apiKey cfg) \<longrightarrow>
      Onfleet_constructor_body h u pkg_name pkg_version cfg limiter =
        Inl (ValidationError
          ''Onfleet API key not found, please obtain an API key from your organization admin''))
   \<and> (js_gt h (userTimeout cfg) 70000 \<longrightarrow>
        (\<exists>message. Onfleet_constructor_body h u pkg_name pkg_version cfg limiter =
                      Inl (ValidationError message)))
   \<and> (truthy (apiKey cfg) \<and> \<not> js_gt h (userTimeout cfg) 70000 \<longrightarrow>
        (\<exists>this limiter'.
            Onfleet_constructor_body h u pkg_name pkg_version cfg limiter = Inr (this, limiter')
            \<and> headers (this_api this) =
                [(''Content-Type'', ''application/json''),
                 (''User-Agent'', pkg_name @ ''-'' @ pkg_version),
                 (''Authorization'', ''Basic '' @ encode u (apiKey cfg))]))"
proof -
  have gt: "js_gt h (dflt (JNum (Fin DEFAULT_TIMEOUT)) (userTimeout cfg)) DEFAULT_TIMEOUT
              = js_gt h (userTimeout cfg) 70000"
    by (simp add: dflt_def js_gt_def DEFAULT_TIMEOUT_def)
  obtain limiter' where l:
    "(if truthy (dflt JNull (bottleneckOptions cfg))
      then initBottleneckOptions h (dflt JNull (bottleneckOptions cfg)) limiter
      else Inr limiter) = Inr limiter'"
    using initBottleneckOptions_truthy [of "dflt JNull (bottleneckOptions cfg)" h limiter]
    by (cases "truthy (dflt JNull (bottleneckOptions cfg))") auto
  show ?thesis
    by (auto simp: Onfleet_constructor_body_def Let_def gt l bind_err_def)
qed

text \<open>
  Claim C10, as stated, fails. \<^verbatim>\<open>new Onfleet()\<close> supplies no API key, and the parameter
  pattern of lines 65 to 72 throws a \<^verbatim>\<open>TypeError\<close> on the \<^verbatim>\<open>undefined\<close> argument before
  the test of line 73 is reached: the error raised is not a \<^verbatim>\<open>ValidationError\<close>.
\<close>

theorem Onfleet_constructor_validation_counterexample:
  "Onfleet_constructor example_host example_util ''@onfleet/node-onfleet'' ''1.3.8''
       JUndefined example_limiter
     = Inl TypeError
   \<and> error_name TypeError \<noteq> ''ValidationError''"
  by (simp add: Onfleet_constructor_def destructure_def bind_err_def TypeError_def)

text \<open>
  Claim C10, amended. Called without argument or with \<^verbatim>\<open>null\<close>, the constructor throws
  a \<^verbatim>\<open>TypeError\<close>. Called with any other argument, whose properties \<^verbatim>\<open>apiKey\<close> and
  \<^verbatim>\<open>userTimeout\<close> read as \<open>key\<close> and \<open>t\<close>: it raises a \<^verbatim>\<open>ValidationError\<close> when the API
  key is missing (or otherwise falsy), and raises a \<^verbatim>\<open>ValidationError\<close> when the
  user-supplied timeout exceeds 70000; when the API key is truthy and the timeout does
  not exceed 70000, it succeeds, and the headers of the new client are
  \<^verbatim>\<open>Content-Type: application/json\<close>, \<^verbatim>\<open>User-Agent: <name>-<version>\<close> and
  \<^verbatim>\<open>Authorization: Basic <encode(apiKey)>\<close>.
\<close>

theorem Onfleet_constructor_validation:
  "(arg = JUndefined \<or> arg = JNull \<longrightarrow>
      Onfleet_constructor h u pkg_name pkg_version arg limiter = Inl TypeError)
   \<and> (get_prop arg ''apiKey'' = Inr key \<and> get_prop arg ''userTimeout'' = Inr t \<longrightarrow>
        (\<not> truthy key \<longrightarrow>
           Onfleet_constructor h u pkg_name pkg_version arg limiter =
             Inl (ValidationError
               ''Onfleet API key not found, please obtain an API key from your organization admin''))
        \<and> (js_gt h t 70000 \<longrightarrow>
             (\<exists>message. Onfleet_constructor h u pkg_name pkg_version arg limiter =
                           Inl (ValidationError message)))
        \<and> (truthy key \<and> \<not> js_gt h t 70000 \<longrightarrow>
             (\<exists>this limiter'.
                 Onfleet_constructor h u pkg_name pkg_version arg limiter = Inr (this, limiter')
                 \<and> headers (this_api this) =
                     [(''Content-Type'', ''application/json''),
                      (''User-Agent'', pkg_name @ ''-'' @ pkg_version),
                      (''Authorization'', ''Basic '' @ encode u key)])))"
proof (intro conjI impI)
  assume "arg = JUndefined \<or> arg = JNull"
  then show "Onfleet_constructor h u pkg_name pkg_version arg limiter = Inl TypeError"
    by (simp add: Onfleet_constructor_def destructure_nullish bind_err_def)
next
  assume r: "get_prop arg ''apiKey'' = Inr key \<and> get_prop arg ''userTimeout'' = Inr t"
  then obtain cfg where cfg: "destructure arg = Inr cfg" "apiKey cfg = key" "userTimeout cfg = t"
    using destructure_reads [of arg key t] by blast
  have c: "Onfleet_constructor h u pkg_name pkg_version arg limiter =
             Onfleet_constructor_body h u pkg_name pkg_version cfg limiter"
    by (simp add: Onfleet_constructor_def cfg(1) bind_err_def)
  note b = Onfleet_constructor_body_validation [of cfg h u pkg_name pkg_version limiter]
  {
    assume "\<not> truthy key"
    then show "Onfleet_constructor h u pkg_name pkg_version arg limiter =
             Inl (ValidationError
               ''Onfleet API key not found, please obtain an API key from your organization admin'')"
      using b c cfg by simp
  next
    assume "js_gt h t 70000"
    then show "\<exists>message. Onfleet_constructor h u pkg_name pkg_version arg limiter =
                           Inl (ValidationError message)"
      using b c cfg by simp
  next
    assume "truthy key \<and> \<not> js_gt h t 70000"
    then show "\<exists>this limiter'.
                 Onfleet_constructor h u pkg_name pkg_version arg limiter = Inr (this, limiter')
                 \<and> headers (this_api this) =
                     [(''Content-Type'', ''application/json''),
                      (''User-Agent'', pkg_name @ ''-'' @ pkg_version),
                      (''Authorization'', ''Basic '' @ encode u key)]"
      using b c cfg by simp
  }
qed

theorem Onfleet_constructor_validation_witness:
  "Onfleet_constructor example_host example_util ''@onfleet/node-onfleet'' ''1.3.8''
       JNull example_limiter
     = Inl TypeError
   \<and> Onfleet_constructor example_host example_util ''@onfleet/node-onfleet'' ''1.3.8''
       (JObj []) example_limiter
     = Inl (ValidationError
         ''Onfleet API key not found, please obtain an API key from your organization admin'')
   \<and> (\<exists>message.
         Onfleet_constructor example_host example_util ''@onfleet/node-onfleet'' ''1.3.8''
           (JObj [(''apiKey'', JStr ''<your_api_key>''), (''userTimeout'', JNum (Fin 70001))])
           example_limiter
         = Inl (ValidationError message))
   \<and> (\<exists>this limiter'.
         Onfleet_constructor example_host example_util ''@onfleet/node-onfleet'' ''1.3.8''
           example_config example_limiter = Inr (this, limiter')
         \<and> headers (this_api this) =
             [(''Content-Type'', ''application/json''),
              (''User-Agent'', ''@onfleet/node-onfleet-1.3.8''),
              (''Authorization'', ''Basic base64(<your_api_key>:)'')])"
proof -
  have e: "encode example_util (JStr ''<your_api_key>'') = ''base64(<your_api_key>:)''"
    by (simp add: example_util_def example_host_def)
  show ?thesis
    using Onfleet_constructor_validation
            [of JNull example_host example_util "''@onfleet/node-onfleet''" "''1.3.8''"
                example_limiter JUndefined JUndefined]
          Onfleet_constructor_validation
            [of "JObj []" example_host example_util "''@onfleet/node-onfleet''" "''1.3.8''"
                example_limiter JUndefined JUndefined]
          Onfleet_constructor_validation
            [of "JObj [(''apiKey'', JStr ''<your_api_key>''), (''userTimeout'', JNum (Fin 70001))]"
                example_host example_util "''@onfleet/node-onfleet''" "''1.3.8''"
                example_limiter "JStr ''<your_api_key>''" "JNum (Fin 70001)"]
          Onfleet_constructor_validation
            [of example_config example_host example_util "''@onfleet/node-onfleet''" "''1.3.8''"
                example_limiter "JStr ''<your_api_key>''" JUndefined]
    by (simp add: example_config_def js_gt_def e)
qed

end
